theory Spec2Isabelle
  imports Complex_Main
begin

section \<open>Python exceptions\<close>

text \<open>
  The exceptions the modelled functions raise. A function that may raise returns
  \<open>py_error + 'a\<close>, with \<open>Inl\<close> for the exception. A ValueError carries the message
  the source gives it, which tells the raising statement.
\<close>

datatype py_error =
    ValueError string
  | ZeroDivisionError
  | KeyError
  | TypeError
  | IndexError
  | UnboundLocalError
  | RuntimeError
  | OtherError string

section \<open>Image classification: resnet\_ctl\_imagenet\_main.py\<close>

subsection \<open>\<open>_steps_to_run\<close>\<close>

text \<open>
  \<^verbatim>\<open>
  def _steps_to_run(steps_in_current_epoch, steps_per_epoch, steps_per_loop):
    if steps_per_loop <= 0:
      raise ValueError('steps_per_loop should be positive integer.')
    if steps_per_loop == 1:
      return steps_per_loop
    return min(steps_per_loop, steps_per_epoch - steps_in_current_epoch)
  \<close>
  Python integers are unbounded, hence \<open>int\<close>.
\<close>

definition steps_to_run :: "int \<Rightarrow> int \<Rightarrow> int \<Rightarrow> py_error + int" where
  "steps_to_run steps_in_current_epoch steps_per_epoch steps_per_loop =
     (if steps_per_loop \<le> 0
      then Inl (ValueError ''steps_per_loop should be positive integer.'')
      else if steps_per_loop = 1 then Inr steps_per_loop
      else Inr (min steps_per_loop (steps_per_epoch - steps_in_current_epoch)))"

subsection \<open>\<open>get_num_train_iterations\<close>\<close>

text \<open>
  \<^verbatim>\<open>
  def get_num_train_iterations(flags_obj):
    train_steps = (
        imagenet_preprocessing.NUM_IMAGES['train'] // flags_obj.batch_size)
    train_epochs = flags_obj.train_epochs
    if flags_obj.train_steps:
      train_steps = min(flags_obj.train_steps, train_steps)
      train_epochs = 1
    eval_steps = math.ceil(1.0 * imagenet_preprocessing.NUM_IMAGES['validation'] /
                           flags_obj.batch_size)
    return train_steps, train_epochs, eval_steps
  \<close>
  The dictionary \<open>NUM_IMAGES\<close> is a constant of the module \<open>imagenet_preprocessing\<close>
  and a parameter here. The flag \<open>train_steps\<close> may be unset
  (\<open>None\<close>); \<open>None\<close> and \<open>0\<close> are the falsy values of the test. Python's \<open>//\<close> rounds
  towards minus infinity, as \<open>div\<close> on \<open>int\<close> does, and raises ZeroDivisionError for a
  zero divisor. The quotient under \<open>math.ceil\<close> is a floating-point number in the
  source and a real number here.
\<close>

record flags_obj =
  batch_size :: int
  train_epochs :: int
  train_steps :: "int option"

definition get_num_train_iterations ::
  "(string \<rightharpoonup> int) \<Rightarrow> flags_obj \<Rightarrow> py_error + (int \<times> int \<times> int)" where
  "get_num_train_iterations NUM_IMAGES flags =
     (case NUM_IMAGES ''train'' of
        None \<Rightarrow> Inl KeyError
      | Some num_train \<Rightarrow>
          if batch_size flags = 0 then Inl ZeroDivisionError
          else
            let steps0 = num_train div batch_size flags;
                epochs0 = train_epochs flags;
                (steps1, epochs1) =
                  (case train_steps flags of
                     None \<Rightarrow> (steps0, epochs0)
                   | Some n \<Rightarrow> if n \<noteq> 0 then (min n steps0, 1) else (steps0, epochs0))
            in (case NUM_IMAGES ''validation'' of
                  None \<Rightarrow> Inl KeyError
                | Some num_val \<Rightarrow>
                    Inr (steps1, epochs1,
                         \<lceil>1 * real_of_int num_val / real_of_int (batch_size flags)\<rceil>)))"

section \<open>Image classification: base\_task.py\<close>

subsection \<open>\<open>Task.__init__\<close> and \<open>Task.task_config\<close>\<close>

text \<open>
  \<^verbatim>\<open>
  def __init__(self, params: cfg.TaskConfig):
    self._task_config = params

  @property
  def task_config(self) -> cfg.TaskConfig:
    return self._task_config
  \<close>
  A Python variable holds a reference to an object. The store maps references to
  objects; the task keeps the reference it was given in its attribute
  \<open>_task_config\<close>. Identity of objects is equality of references.
\<close>

type_synonym ref = nat

record task =
  task_config_attr :: ref

definition Task_init :: "(ref \<Rightarrow> 'obj) \<Rightarrow> ref \<Rightarrow> (ref \<Rightarrow> 'obj) \<times> task" where
  "Task_init store params = (store, \<lparr>task_config_attr = params\<rparr>)"

definition task_config :: "task \<Rightarrow> ref" where
  "task_config self = task_config_attr self"

subsection \<open>\<open>Task.compile_model\<close>\<close>

text \<open>
  \<^verbatim>\<open>
  def compile_model(self, model, optimizer, loss=None, train_step=None,
                    validation_step=None, **kwargs):
    if bool(loss is None) == bool(train_step is None):
      raise ValueError("`loss` and `train_step` should be exclusive to "
                       "each other.")
    model.compile(optimizer=optimizer, loss=loss, **kwargs)
    if train_step:
      model.train_step = functools.partial(
          train_step, model=model, optimizer=model.optimizer)
    if validation_step:
      model.test_step = functools.partial(validation_step, model=model)
    return model
  \<close>
  An optional argument is an \<open>option\<close>, \<open>None\<close> for Python's \<open>None\<close>. The model is
  the record of the attributes the method writes. \<open>model.compile\<close> belongs to Keras:
  it is taken to store the optimizer and the loss, and an exception from inside the
  framework is not modelled. A step function is a callable, hence truthy when
  present; the partial application is kept as the function with the optimizer bound
  to it (the model bound to it is the model itself).
\<close>

record ('opt, 'loss, 'fn) keras_model =
  optimizer :: "'opt option"
  compiled_loss :: "'loss option"
  train_step_attr :: "('fn \<times> 'opt option) option"
  test_step_attr :: "'fn option"

definition keras_compile ::
  "('opt, 'loss, 'fn) keras_model \<Rightarrow> 'opt \<Rightarrow> 'loss option \<Rightarrow> ('opt, 'loss, 'fn) keras_model" where
  "keras_compile model opt loss = model\<lparr>optimizer := Some opt, compiled_loss := loss\<rparr>"

definition exclusive_msg :: string where
  "exclusive_msg = ''`loss` and `train_step` should be exclusive to each other.''"

definition compile_model ::
  "('opt, 'loss, 'fn) keras_model \<Rightarrow> 'opt \<Rightarrow> 'loss option \<Rightarrow> 'fn option \<Rightarrow> 'fn option
     \<Rightarrow> py_error + ('opt, 'loss, 'fn) keras_model" where
  "compile_model model opt loss train_step validation_step =
     (if (loss = None) = (train_step = None) then Inl (ValueError exclusive_msg)
      else
        let m1 = keras_compile model opt loss;
            m2 = (case train_step of
                    Some f \<Rightarrow> m1\<lparr>train_step_attr := Some (f, optimizer m1)\<rparr>
                  | None \<Rightarrow> m1);
            m3 = (case validation_step of
                    Some g \<Rightarrow> m2\<lparr>test_step_attr := Some g\<rparr>
                  | None \<Rightarrow> m2)
        in Inr m3)"

subsection \<open>Unpacking the inputs in \<open>Task.train_step\<close> and \<open>Task.validation_step\<close>\<close>

text \<open>
  Both methods begin with the same statement:
  \<^verbatim>\<open>
  if isinstance(inputs, tuple) and len(inputs) == 2:
    features, labels = inputs
  else:
    features, labels = inputs, inputs
  \<close>
  after which \<open>features\<close> is what the model is called on and \<open>labels\<close> is what
  \<open>build_losses\<close> and the metrics receive. The inputs are Python values: tuples,
  lists and dictionaries of tensors; a tensor is opaque here. Python's \<open>and\<close> takes
  the length only of a tuple, so the value of \<open>py_len\<close> on a tensor is never read.
\<close>

datatype pyobj =
    PyTuple "pyobj list"
  | PyList "pyobj list"
  | PyDict "(string \<times> pyobj) list"
  | PyTensor nat

fun isinstance_tuple :: "pyobj \<Rightarrow> bool" where
  "isinstance_tuple (PyTuple xs) = True"
| "isinstance_tuple _ = False"

fun py_len :: "pyobj \<Rightarrow> nat" where
  "py_len (PyTuple xs) = length xs"
| "py_len (PyList xs) = length xs"
| "py_len (PyDict kvs) = length kvs"
| "py_len (PyTensor t) = 0"

fun tuple_items :: "pyobj \<Rightarrow> pyobj list" where
  "tuple_items (PyTuple xs) = xs"
| "tuple_items _ = []"

definition train_step_unpack :: "pyobj \<Rightarrow> pyobj \<times> pyobj" where
  "train_step_unpack inputs =
     (if isinstance_tuple inputs \<and> py_len inputs = 2
      then (tuple_items inputs ! 0, tuple_items inputs ! 1)
      else (inputs, inputs))"

definition validation_step_unpack :: "pyobj \<Rightarrow> pyobj \<times> pyobj" where
  "validation_step_unpack inputs =
     (if isinstance_tuple inputs \<and> py_len inputs = 2
      then (tuple_items inputs ! 0, tuple_items inputs ! 1)
      else (inputs, inputs))"

subsection \<open>\<open>Task.build_losses\<close>\<close>

text \<open>
  \<^verbatim>\<open>
  def build_losses(self, labels, model_outputs, aux_losses=None) -> tf.Tensor:
    del model_outputs, labels
    if aux_losses is None:
      losses = [tf.constant(0.0, dtype=tf.float32)]
    else:
      losses = aux_losses
    total_loss = tf.add_n(losses)
    return total_loss
  \<close>
  A tensor is the list of its components, its shape being their number; a scalar has
  one component. The components are real numbers here and 32-bit floats in the source.
  \<open>tf.add_n\<close> belongs to TensorFlow: it adds the tensors of a list component by
  component, and raises ValueError for an empty list and for tensors of different
  shapes.
\<close>

type_synonym tensor = "real list"

definition tf_constant :: "real \<Rightarrow> tensor" where
  "tf_constant c = [c]"

definition tensor_add :: "tensor \<Rightarrow> tensor \<Rightarrow> py_error + tensor" where
  "tensor_add a b =
     (if length a = length b then Inr (map2 (+) a b)
      else Inl (ValueError ''Shapes of all inputs must match''))"

fun add_n :: "tensor list \<Rightarrow> py_error + tensor" where
  "add_n [] = Inl (ValueError ''inputs must be a list of at least one Tensor'')"
| "add_n [t] = Inr t"
| "add_n (t # ts) = (case add_n ts of Inl e \<Rightarrow> Inl e | Inr s \<Rightarrow> tensor_add t s)"

definition build_losses :: "'lab \<Rightarrow> 'out \<Rightarrow> tensor list option \<Rightarrow> py_error + tensor" where
  "build_losses labels model_outputs aux_losses =
     (let losses = (case aux_losses of None \<Rightarrow> [tf_constant 0] | Some ls \<Rightarrow> ls)
      in add_n losses)"

section \<open>Speech recognition: training.py\<close>

subsection \<open>Resuming from a checkpoint\<close>

text \<open>
  \<^verbatim>\<open>
  if args.continue_from:
      package = torch.load(args.continue_from)
      model.load_state_dict(package['state_dict'])
      model = model.cuda()
      optimizer.load_state_dict(package['optim_dict'])
      start_epoch = int(package.get('epoch', 1)) - 1
      start_iter = package.get('iteration', None)
      if start_iter is None:
          start_epoch += 1
          start_iter = 0
      else:
          start_iter += 1
      avg_loss = int(package.get('avg_loss', 0))
      if args.start_epoch != -1:
          start_epoch = args.start_epoch
      ...
  else:
      avg_loss = 0
      start_epoch = 0
      start_iter = 0
  \<close>
  The package is the dictionary that \<open>torch.load\<close> returns, a parameter here. Its
  values are Python values: \<open>None\<close>, an integer, or an object that is opaque (the
  state dictionaries, the result tensors). \<open>package[k]\<close> raises KeyError for a missing
  key, \<open>package.get(k, d)\<close> gives \<open>d\<close>; \<open>int\<close> and \<open>+= 1\<close> raise TypeError on a value
  that is no number. The copying of the result tensors that follows in the source
  assigns neither \<open>start_epoch\<close> nor \<open>start_iter\<close>.
\<close>

datatype pyval = PyNone | PyInt int | PyOpaque nat

record args =
  continue_from :: string
  start_epoch :: int
  acc :: real
  checkpoint :: bool

record counters =
  c_start_epoch :: int
  c_start_iter :: int
  c_avg_loss :: int

definition dict_get :: "(string \<rightharpoonup> pyval) \<Rightarrow> string \<Rightarrow> pyval \<Rightarrow> pyval" where
  "dict_get d k dflt = (case d k of None \<Rightarrow> dflt | Some v \<Rightarrow> v)"

fun py_int :: "pyval \<Rightarrow> py_error + int" where
  "py_int (PyInt n) = Inr n"
| "py_int _ = Inl TypeError"

definition resume :: "args \<Rightarrow> (string \<rightharpoonup> pyval) \<Rightarrow> py_error + counters" where
  "resume a package =
     (if continue_from a \<noteq> [] then
        (case package ''state_dict'' of
           None \<Rightarrow> Inl KeyError
         | Some sd \<Rightarrow>
        (case package ''optim_dict'' of
           None \<Rightarrow> Inl KeyError
         | Some od \<Rightarrow>
        (case py_int (dict_get package ''epoch'' (PyInt 1)) of
           Inl e \<Rightarrow> Inl e
         | Inr ep \<Rightarrow>
        (case (case dict_get package ''iteration'' PyNone of
                 PyNone \<Rightarrow> Inr (ep - 1 + 1, 0)
               | PyInt it \<Rightarrow> Inr (ep - 1, it + 1)
               | PyOpaque x \<Rightarrow> Inl TypeError) of
           Inl e \<Rightarrow> Inl e
         | Inr (start_epoch1, start_iter1) \<Rightarrow>
        (case py_int (dict_get package ''avg_loss'' (PyInt 0)) of
           Inl e \<Rightarrow> Inl e
         | Inr avg \<Rightarrow>
             Inr \<lparr>c_start_epoch =
                    (if start_epoch a \<noteq> - 1 then start_epoch a else start_epoch1),
                  c_start_iter = start_iter1,
                  c_avg_loss = avg\<rparr>)))))
      else Inr \<lparr>c_start_epoch = 0, c_start_iter = 0, c_avg_loss = 0\<rparr>)"

subsection \<open>The loss of a batch\<close>

text \<open>
  \<^verbatim>\<open>
  loss_sum = loss.data.sum()
  inf = float("inf")
  if loss_sum == inf or loss_sum == -inf:
      print("WARNING: received an inf loss, setting loss value to 0")
      loss_value = 0
  else:
      loss_value = loss.data[0]
  avg_loss += loss_value
  losses.update(loss_value, inputs.size(0))
  \<close>
  A float is a finite number, one of the two infinities, or not a number; the finite
  ones are real numbers here, so a sum of finite terms stays finite. The class
  \<open>AverageMeter\<close> is defined in the module \<open>model.utils\<close>: the meter
  \<open>losses\<close> is kept as the sequence of the \<open>update\<close> calls it has received, each with its value
  and its weight. The printed lines are kept in order.
\<close>

datatype pyfloat = Fin real | PosInf | NegInf | NaN

fun pf_add :: "pyfloat \<Rightarrow> pyfloat \<Rightarrow> pyfloat" where
  "pf_add (Fin a) (Fin b) = Fin (a + b)"
| "pf_add NaN _ = NaN"
| "pf_add _ NaN = NaN"
| "pf_add PosInf NegInf = NaN"
| "pf_add NegInf PosInf = NaN"
| "pf_add PosInf _ = PosInf"
| "pf_add _ PosInf = PosInf"
| "pf_add NegInf _ = NegInf"
| "pf_add _ NegInf = NegInf"

definition data_sum :: "pyfloat list \<Rightarrow> pyfloat" where
  "data_sum xs = foldl pf_add (Fin 0) xs"

record batch_state =
  avg_loss :: pyfloat
  losses :: "(pyfloat \<times> nat) list"
  printed :: "string list"

definition inf_warning :: string where
  "inf_warning = ''WARNING: received an inf loss, setting loss value to 0''"

definition accumulate_loss :: "pyfloat list \<Rightarrow> nat \<Rightarrow> batch_state \<Rightarrow> py_error + batch_state" where
  "accumulate_loss loss_data batch st =
     (let loss_sum = data_sum loss_data in
      if loss_sum = PosInf \<or> loss_sum = NegInf then
        Inr (st\<lparr>printed := printed st @ [inf_warning],
                avg_loss := pf_add (avg_loss st) (Fin 0),
                losses := losses st @ [(Fin 0, batch)]\<rparr>)
      else
        (case loss_data of
           [] \<Rightarrow> Inl IndexError
         | loss_value # rest \<Rightarrow>
             Inr (st\<lparr>avg_loss := pf_add (avg_loss st) loss_value,
                     losses := losses st @ [(loss_value, batch)]\<rparr>)))"

subsection \<open>The epoch loop\<close>

text \<open>
  \<^verbatim>\<open>
  for epoch in range(start_epoch, params.epochs):
      ... the batches of the epoch ...
      avg_loss /= len(train_loader)
      start_iter = 0
      try:
          model.eval()
          wer, cer = eval_model(model, test_loader, decoder)
      except RuntimeError:
          print("skipping eval model checkpoint.... ")
      loss_results[epoch] = avg_loss
      wer_results[epoch] = wer
      cer_results[epoch] = cer
      print('Validation Summary Epoch: ...')
      if args.checkpoint:
          torch.save(..., file_path)
      ... the learning rate is annealed ...
      if best_wer is None or best_wer > wer:
          torch.save(..., args.model_path)
          best_wer = wer
      avg_loss = 0
      model.train()
      if params.exit_at_acc and (best_wer <= args.acc):
          break
  \<close>
  What an epoch receives from outside is the average loss its batches leave and the
  outcome of \<open>eval_model\<close>: the pair of error rates, or an exception. The local
  variables \<open>wer\<close> and \<open>cer\<close> are unbound until their first assignment, and reading an
  unbound local raises UnboundLocalError; \<open>best_wer\<close> starts as \<open>None\<close>. The three result
  tensors have \<open>params.epochs\<close> entries, written by index, a negative index counting
  from the end and an index out of range raising IndexError. Error rates are real
  numbers here. The saving of checkpoints is recorded as an event, like the printed
  lines; the optimizer and its learning rate are left out.
\<close>

record params =
  epochs :: int
  exit_at_acc :: bool

datatype event =
    SkippingEval
  | ValidationSummary int real real
  | SavedCheckpoint int
  | SavedBest int

record loop_state =
  wer :: "real option"
  cer :: "real option"
  best_wer :: "real option"
  loss_results :: "nat \<rightharpoonup> real"
  wer_results :: "nat \<rightharpoonup> real"
  cer_results :: "nat \<rightharpoonup> real"
  events :: "event list"

record epoch_input =
  epoch_avg_loss :: real
  eval_model :: "py_error + (real \<times> real)"

datatype loop_exit = Exhausted | Break int

definition tensor_index :: "int \<Rightarrow> int \<Rightarrow> py_error + nat" where
  "tensor_index len i =
     (let j = (if i < 0 then len + i else i)
      in if 0 \<le> j \<and> j < len then Inr (nat j) else Inl IndexError)"

definition initial_state :: loop_state where
  "initial_state =
     \<lparr>wer = None, cer = None, best_wer = None, loss_results = Map.empty,
      wer_results = Map.empty, cer_results = Map.empty, events = []\<rparr>"

definition run_eval :: "epoch_input \<Rightarrow> loop_state \<Rightarrow> py_error + loop_state" where
  "run_eval inp st =
     (case eval_model inp of
        Inr (w, c) \<Rightarrow> Inr (st\<lparr>wer := Some w, cer := Some c\<rparr>)
      | Inl RuntimeError \<Rightarrow> Inr (st\<lparr>events := events st @ [SkippingEval]\<rparr>)
      | Inl e \<Rightarrow> Inl e)"

definition record_results ::
  "params \<Rightarrow> int \<Rightarrow> epoch_input \<Rightarrow> loop_state \<Rightarrow> py_error + (loop_state \<times> real)" where
  "record_results p epoch inp st =
     (case tensor_index (epochs p) epoch of
        Inl e \<Rightarrow> Inl e
      | Inr i \<Rightarrow>
     (case wer st of
        None \<Rightarrow> Inl UnboundLocalError
      | Some w \<Rightarrow>
     (case cer st of
        None \<Rightarrow> Inl UnboundLocalError
      | Some c \<Rightarrow>
          Inr (st\<lparr>loss_results := (loss_results st)(i \<mapsto> epoch_avg_loss inp),
                  wer_results := (wer_results st)(i \<mapsto> w),
                  cer_results := (cer_results st)(i \<mapsto> c),
                  events := events st @ [ValidationSummary (epoch + 1) w c]\<rparr>, w))))"

definition update_best :: "int \<Rightarrow> real \<Rightarrow> loop_state \<Rightarrow> loop_state" where
  "update_best epoch w st =
     (if (case best_wer st of None \<Rightarrow> True | Some b \<Rightarrow> b > w)
      then st\<lparr>events := events st @ [SavedBest epoch], best_wer := Some w\<rparr>
      else st)"

definition target_reached :: "params \<Rightarrow> args \<Rightarrow> loop_state \<Rightarrow> bool" where
  "target_reached p a st =
     (exit_at_acc p \<and> (case best_wer st of None \<Rightarrow> False | Some b \<Rightarrow> b \<le> acc a))"

definition epoch_body ::
  "params \<Rightarrow> args \<Rightarrow> int \<Rightarrow> epoch_input \<Rightarrow> loop_state \<Rightarrow> py_error + loop_state" where
  "epoch_body p a epoch inp st =
     (case run_eval inp st of
        Inl e \<Rightarrow> Inl e
      | Inr st1 \<Rightarrow>
     (case record_results p epoch inp st1 of
        Inl e \<Rightarrow> Inl e
      | Inr (st2, w) \<Rightarrow>
          let st3 = (if checkpoint a
                     then st2\<lparr>events := events st2 @ [SavedCheckpoint (epoch + 1)]\<rparr>
                     else st2)
          in Inr (update_best epoch w st3)))"

function epoch_loop ::
  "params \<Rightarrow> args \<Rightarrow> (int \<Rightarrow> epoch_input) \<Rightarrow> int \<Rightarrow> loop_state
     \<Rightarrow> py_error + (loop_state \<times> loop_exit)" where
  "epoch_loop p a inputs epoch st =
     (if epoch < epochs p then
        (case epoch_body p a epoch (inputs epoch) st of
           Inl e \<Rightarrow> Inl e
         | Inr st' \<Rightarrow>
             if target_reached p a st' then Inr (st', Break epoch)
             else epoch_loop p a inputs (epoch + 1) st')
      else Inr (st, Exhausted))"
  by pat_completeness auto
termination
  by (relation "measure (\<lambda>(p, a, inputs, epoch, st). nat (epochs p - epoch))") auto

text \<open>
  The state after the bodies of \<open>n\<close> consecutive epochs, from epoch \<open>epoch\<close> on, with
  the test for leaving the loop left out: it names the state at the end of each epoch
  in the statements about the loop.
\<close>

fun state_after ::
  "params \<Rightarrow> args \<Rightarrow> (int \<Rightarrow> epoch_input) \<Rightarrow> int \<Rightarrow> nat \<Rightarrow> loop_state
     \<Rightarrow> py_error + loop_state" where
  "state_after p a inputs epoch 0 st = Inr st"
| "state_after p a inputs epoch (Suc n) st =
     (case epoch_body p a epoch (inputs epoch) st of
        Inl e \<Rightarrow> Inl e
      | Inr st' \<Rightarrow> state_after p a inputs (epoch + 1) n st')"

subsection \<open>Three concrete runs\<close>

text \<open>
  The arguments are the defaults of the command line, with a target word error rate
  of 23. In the first run the target counts and the error rate falls from 30 to 20 in
  the second epoch; in the second the target does not count (\<open>params.exit_at_acc\<close> is
  false) and the error rate is 10 throughout; in the third \<open>eval_model\<close> raises
  RuntimeError in every epoch.
\<close>

definition target_params :: params where
  "target_params = \<lparr>epochs = 5, exit_at_acc = True\<rparr>"

definition plain_params :: params where
  "plain_params = \<lparr>epochs = 2, exit_at_acc = False\<rparr>"

definition default_args :: args where
  "default_args = \<lparr>continue_from = [], start_epoch = - 1, acc = 23, checkpoint = False\<rparr>"

definition improving :: "int \<Rightarrow> epoch_input" where
  "improving e = \<lparr>epoch_avg_loss = 1, eval_model = Inr (if e = 0 then 30 else 20, 5)\<rparr>"

definition steady :: "int \<Rightarrow> epoch_input" where
  "steady e = \<lparr>epoch_avg_loss = 1, eval_model = Inr (10, 5)\<rparr>"

definition failing :: "int \<Rightarrow> epoch_input" where
  "failing e = \<lparr>epoch_avg_loss = 1, eval_model = Inl RuntimeError\<rparr>"

section \<open>Properties\<close>

text \<open>
  C3: \<open>_steps_to_run\<close> raises ValueError for every \<open>steps_per_loop \<le> 0\<close>, returns 1
  whenever \<open>steps_per_loop = 1\<close> whatever the other two arguments are, and for every
  \<open>steps_per_loop > 1\<close> returns the minimum of \<open>steps_per_loop\<close> and
  \<open>steps_per_epoch - steps_in_current_epoch\<close>.
\<close>

theorem steps_to_run_spec:
  "(steps_per_loop \<le> 0 \<longrightarrow>
      steps_to_run steps_in_current_epoch steps_per_epoch steps_per_loop =
        Inl (ValueError ''steps_per_loop should be positive integer.'')) \<and>
   (steps_per_loop = 1 \<longrightarrow>
      steps_to_run steps_in_current_epoch steps_per_epoch steps_per_loop = Inr 1) \<and>
   (steps_per_loop > 1 \<longrightarrow>
      steps_to_run steps_in_current_epoch steps_per_epoch steps_per_loop =
        Inr (min steps_per_loop (steps_per_epoch - steps_in_current_epoch)))"
  by (simp add: steps_to_run_def)

theorem steps_to_run_spec_witness:
  "(0::int) \<le> 0 \<and>
   steps_to_run 3 10 0 = Inl (ValueError ''steps_per_loop should be positive integer.'') \<and>
   steps_to_run 7 10 1 = Inr 1 \<and>
   (4::int) > 1 \<and> steps_to_run 7 10 4 = Inr 3"
  using steps_to_run_spec [of 0 3 10] steps_to_run_spec [of 1 7 10]
    steps_to_run_spec [of 4 7 10]
  by simp

text \<open>
  C4: with \<open>NUM_IMAGES['train'] = 1000\<close>, a batch size of 10, 5 training epochs and
  \<open>train_steps = 0\<close>, \<open>get_num_train_iterations\<close> returns \<open>(100, 5, eval_steps)\<close>, where
  \<open>eval_steps\<close> is the ceiling of \<open>NUM_IMAGES['validation'] / batch_size\<close>; and for every
  nonzero \<open>train_steps\<close> below \<open>NUM_IMAGES['train'] // batch_size\<close> it returns
  \<open>(train_steps, 1, eval_steps)\<close>.
\<close>

theorem get_num_train_iterations_spec:
  "(NUM_IMAGES ''train'' = Some 1000 \<and> NUM_IMAGES ''validation'' = Some num_val \<longrightarrow>
      get_num_train_iterations NUM_IMAGES
        \<lparr>batch_size = 10, train_epochs = 5, train_steps = Some 0\<rparr> =
      Inr (100, 5, \<lceil>real_of_int num_val / 10\<rceil>)) \<and>
   (NUM_IMAGES ''train'' = Some num_train \<and> NUM_IMAGES ''validation'' = Some num_val \<and>
    batch_size flags \<noteq> 0 \<and> train_steps flags = Some ts \<and> ts \<noteq> 0 \<and>
    ts < num_train div batch_size flags \<longrightarrow>
      get_num_train_iterations NUM_IMAGES flags =
      Inr (ts, 1, \<lceil>real_of_int num_val / real_of_int (batch_size flags)\<rceil>))"
  by (simp add: get_num_train_iterations_def)

theorem get_num_train_iterations_spec_witness:
  "get_num_train_iterations [''train'' \<mapsto> 1000, ''validation'' \<mapsto> 55]
     \<lparr>batch_size = 10, train_epochs = 5, train_steps = Some 0\<rparr> = Inr (100, 5, 6) \<and>
   get_num_train_iterations [''train'' \<mapsto> 1000, ''validation'' \<mapsto> 55]
     \<lparr>batch_size = 10, train_epochs = 5, train_steps = Some 40\<rparr> = Inr (40, 1, 6)"
proof -
  have c: "\<lceil>real_of_int 55 / 10\<rceil> = (6::int)"
    by (simp add: ceiling_eq_iff)
  show ?thesis
    using c
      get_num_train_iterations_spec
        [of "[''train'' \<mapsto> 1000, ''validation'' \<mapsto> 55]" 55 1000
            "\<lparr>batch_size = 10, train_epochs = 5, train_steps = Some 40\<rparr>" 40]
    by simp
qed

text \<open>
  C2: \<open>compile_model\<close> raises its ValueError if and only if \<open>loss\<close> and \<open>train_step\<close>
  are both \<open>None\<close> or both given; with exactly one of them given it returns the model.
\<close>

theorem compile_model_error_iff:
  "((compile_model model opt loss train_step validation_step = Inl (ValueError exclusive_msg))
      = ((loss = None \<and> train_step = None) \<or> (loss \<noteq> None \<and> train_step \<noteq> None))) \<and>
   ((\<exists>m. compile_model model opt loss train_step validation_step = Inr m)
      = ((loss = None \<and> train_step \<noteq> None) \<or> (loss \<noteq> None \<and> train_step = None)))"
  by (auto simp: compile_model_def Let_def)

theorem compile_model_error_iff_witness:
  "compile_model \<lparr>optimizer = None, compiled_loss = None, train_step_attr = None,
       test_step_attr = None\<rparr> (1::nat) (None :: nat option) (None :: nat option) None
     = Inl (ValueError exclusive_msg) \<and>
   compile_model \<lparr>optimizer = None, compiled_loss = None, train_step_attr = None,
       test_step_attr = None\<rparr> (1::nat) (Some (2::nat)) (Some (3::nat)) None
     = Inl (ValueError exclusive_msg) \<and>
   (\<exists>m. compile_model \<lparr>optimizer = None, compiled_loss = None, train_step_attr = None,
       test_step_attr = None\<rparr> (1::nat) (Some (2::nat)) (None :: nat option) None = Inr m) \<and>
   (\<exists>m. compile_model \<lparr>optimizer = None, compiled_loss = None, train_step_attr = None,
       test_step_attr = None\<rparr> (1::nat) (None :: nat option) (Some (3::nat)) None = Inr m)"
  using
    compile_model_error_iff [of "\<lparr>optimizer = None, compiled_loss = None,
       train_step_attr = None, test_step_attr = None\<rparr>" "1::nat" "None :: nat option"
       "None :: nat option" None]
    compile_model_error_iff [of "\<lparr>optimizer = None, compiled_loss = None,
       train_step_attr = None, test_step_attr = None\<rparr>" "1::nat" "Some (2::nat)"
       "Some (3::nat)" None]
    compile_model_error_iff [of "\<lparr>optimizer = None, compiled_loss = None,
       train_step_attr = None, test_step_attr = None\<rparr>" "1::nat" "Some (2::nat)"
       "None :: nat option" None]
    compile_model_error_iff [of "\<lparr>optimizer = None, compiled_loss = None,
       train_step_attr = None, test_step_attr = None\<rparr>" "1::nat" "None :: nat option"
       "Some (3::nat)" None]
  by simp

text \<open>
  C9: \<open>Task.__init__\<close> keeps the reference to the parameter object it is given and
  leaves the store as it is (no copy is made, no object is changed), and
  \<open>task_config\<close> returns that same reference.
\<close>

theorem task_config_roundtrip:
  "fst (Task_init store params) = store \<and>
   task_config (snd (Task_init store params)) = params"
  by (simp add: Task_init_def task_config_def)

text \<open>
  C10: in \<open>train_step\<close> and in \<open>validation_step\<close>, inputs that are not a tuple of
  length 2 become both the features and the labels; a tuple of length 2 is split into
  its first component, the features, and its second, the labels.
\<close>

theorem step_unpack_spec:
  "(\<not> (isinstance_tuple inputs \<and> py_len inputs = 2) \<longrightarrow>
      train_step_unpack inputs = (inputs, inputs) \<and>
      validation_step_unpack inputs = (inputs, inputs)) \<and>
   (inputs = PyTuple [a, b] \<longrightarrow>
      train_step_unpack inputs = (a, b) \<and> validation_step_unpack inputs = (a, b)) \<and>
   ((isinstance_tuple inputs \<and> py_len inputs = 2) = (\<exists>x y. inputs = PyTuple [x, y]))"
proof -
  have "(isinstance_tuple inputs \<and> py_len inputs = 2) = (\<exists>x y. inputs = PyTuple [x, y])"
  proof (cases inputs)
    case (PyTuple xs)
    then show ?thesis
      by (cases xs; cases "tl xs"; cases "tl (tl xs)") auto
  qed auto
  then show ?thesis
    by (auto simp: train_step_unpack_def validation_step_unpack_def)
qed

theorem step_unpack_spec_witness:
  "train_step_unpack (PyTuple [PyTensor 1, PyTensor 2, PyTensor 3]) =
     (PyTuple [PyTensor 1, PyTensor 2, PyTensor 3], PyTuple [PyTensor 1, PyTensor 2, PyTensor 3]) \<and>
   validation_step_unpack (PyList [PyTensor 1, PyTensor 2]) =
     (PyList [PyTensor 1, PyTensor 2], PyList [PyTensor 1, PyTensor 2]) \<and>
   train_step_unpack (PyTuple [PyTensor 1, PyTensor 2]) = (PyTensor 1, PyTensor 2) \<and>
   validation_step_unpack (PyTuple [PyTensor 1, PyTensor 2]) = (PyTensor 1, PyTensor 2)"
  using step_unpack_spec [of "PyTuple [PyTensor 1, PyTensor 2, PyTensor 3]"]
    step_unpack_spec [of "PyList [PyTensor 1, PyTensor 2]"]
    step_unpack_spec [of "PyTuple [PyTensor 1, PyTensor 2]" "PyTensor 1" "PyTensor 2"]
  by simp

subsection \<open>The sum of the losses\<close>

lemma tensor_add_nth:
  "length a = n \<Longrightarrow> tensor_add a (map f [0..<n]) = Inr (map (\<lambda>i. a ! i + f i) [0..<n])"
  by (auto simp: tensor_add_def intro!: nth_equalityI)

lemma add_n_sum:
  "ls \<noteq> [] \<Longrightarrow> \<forall>t\<in>set ls. length t = n \<Longrightarrow>
     add_n ls = Inr (map (\<lambda>i. \<Sum>t\<leftarrow>ls. t ! i) [0..<n])"
proof (induction ls rule: list_nonempty_induct)
  case (single t)
  then show ?case by (auto intro!: nth_equalityI)
next
  case (cons t ts)
  then obtain u us where ts: "ts = u # us" by (cases ts) auto
  from cons have "add_n ts = Inr (map (\<lambda>i. \<Sum>t\<leftarrow>ts. t ! i) [0..<n])" by simp
  moreover from cons have "length t = n" by simp
  ultimately show ?case
    by (simp add: ts tensor_add_nth)
qed

text \<open>
  C5: \<open>build_losses\<close> with \<open>aux_losses = None\<close> returns the scalar zero, whatever the
  labels and the model outputs are; with a non-empty list of loss tensors of one shape
  it returns their sum, component by component, again whatever the labels and the
  model outputs are.
\<close>

theorem build_losses_spec:
  "build_losses labels model_outputs None = Inr (tf_constant 0) \<and>
   (ls \<noteq> [] \<and> (\<forall>t\<in>set ls. length t = n) \<longrightarrow>
      build_losses labels model_outputs (Some ls) = Inr (map (\<lambda>i. \<Sum>t\<leftarrow>ls. t ! i) [0..<n]))"
  by (simp add: build_losses_def add_n_sum)

theorem build_losses_spec_witness:
  "build_losses (0::nat) (0::nat) (Some [[1, 2], [3, 4], [5, 6]]) = Inr [9, 12]"
  using build_losses_spec [of "0::nat" "0::nat" "[[1, 2], [3, 4], [5, 6]]" 2]
  by (simp add: upt_rec)

subsection \<open>Resuming\<close>

text \<open>
  C1: on the resume path (\<open>continue_from\<close> not empty, the flag \<open>start_epoch\<close> at its
  default \<open>-1\<close>), a package without the key \<open>iteration\<close> gives a \<open>start_epoch\<close> of the
  package's epoch minus one plus one, that is the package's epoch, and a \<open>start_iter\<close>
  of 0; a package with an \<open>iteration\<close> gives a \<open>start_iter\<close> of that value plus one and
  a \<open>start_epoch\<close> of the package's epoch minus one.
\<close>

theorem resume_spec:
  "continue_from a \<noteq> [] \<and> start_epoch a = - 1 \<and>
   package ''state_dict'' = Some sd \<and> package ''optim_dict'' = Some od \<and>
   package ''epoch'' = Some (PyInt ep) \<and>
   (package ''avg_loss'' = None \<or> package ''avg_loss'' = Some (PyInt avg)) \<longrightarrow>
   (package ''iteration'' = None \<longrightarrow>
      (\<exists>c. resume a package = Inr c \<and> c_start_epoch c = ep - 1 + 1 \<and> c_start_epoch c = ep \<and>
           c_start_iter c = 0)) \<and>
   (package ''iteration'' = Some (PyInt it) \<longrightarrow>
      (\<exists>c. resume a package = Inr c \<and> c_start_epoch c = ep - 1 \<and> c_start_iter c = it + 1))"
  by (auto simp: resume_def dict_get_def)

theorem resume_spec_witness:
  "(\<exists>c. resume \<lparr>continue_from = ''models/deepspeech_3.pth'', start_epoch = - 1, acc = 23,
                 checkpoint = True\<rparr>
         [''state_dict'' \<mapsto> PyOpaque 0, ''optim_dict'' \<mapsto> PyOpaque 1, ''epoch'' \<mapsto> PyInt 3]
         = Inr c \<and> c_start_epoch c = 3 \<and> c_start_iter c = 0) \<and>
   (\<exists>c. resume \<lparr>continue_from = ''models/deepspeech_3.pth'', start_epoch = - 1, acc = 23,
                 checkpoint = True\<rparr>
         [''state_dict'' \<mapsto> PyOpaque 0, ''optim_dict'' \<mapsto> PyOpaque 1, ''epoch'' \<mapsto> PyInt 3,
          ''iteration'' \<mapsto> PyInt 7]
         = Inr c \<and> c_start_epoch c = 2 \<and> c_start_iter c = 8)"
  using
    resume_spec [of "\<lparr>continue_from = ''models/deepspeech_3.pth'', start_epoch = - 1, acc = 23,
                 checkpoint = True\<rparr>"
       "[''state_dict'' \<mapsto> PyOpaque 0, ''optim_dict'' \<mapsto> PyOpaque 1, ''epoch'' \<mapsto> PyInt 3]"
       "PyOpaque 0" "PyOpaque 1" 3 0 0]
    resume_spec [of "\<lparr>continue_from = ''models/deepspeech_3.pth'', start_epoch = - 1, acc = 23,
                 checkpoint = True\<rparr>"
       "[''state_dict'' \<mapsto> PyOpaque 0, ''optim_dict'' \<mapsto> PyOpaque 1, ''epoch'' \<mapsto> PyInt 3,
          ''iteration'' \<mapsto> PyInt 7]"
       "PyOpaque 0" "PyOpaque 1" 3 0 7]
  by simp

subsection \<open>An infinite loss\<close>

lemma pf_add_zero: "pf_add x (Fin 0) = x"
  by (cases x) auto

text \<open>
  C7: when the summed loss of a batch is plus or minus infinity, the value added to
  \<open>avg_loss\<close> and handed to the meter \<open>losses\<close> is 0 (so \<open>avg_loss\<close> keeps its value) and
  the warning is printed; when the sum is finite, the loss value \<open>loss.data[0]\<close> is
  added and handed to the meter, and nothing is printed.
\<close>

theorem accumulate_loss_spec:
  "(data_sum loss_data = PosInf \<or> data_sum loss_data = NegInf \<longrightarrow>
      accumulate_loss loss_data batch st =
        Inr (st\<lparr>printed := printed st @ [inf_warning],
                avg_loss := pf_add (avg_loss st) (Fin 0),
                losses := losses st @ [(Fin 0, batch)]\<rparr>) \<and>
      pf_add (avg_loss st) (Fin 0) = avg_loss st) \<and>
   (data_sum loss_data = Fin s \<and> loss_data = loss_value # rest \<longrightarrow>
      accumulate_loss loss_data batch st =
        Inr (st\<lparr>avg_loss := pf_add (avg_loss st) loss_value,
                losses := losses st @ [(loss_value, batch)]\<rparr>))"
  by (auto simp: accumulate_loss_def Let_def pf_add_zero)

theorem accumulate_loss_spec_witness:
  "accumulate_loss [PosInf] 4 \<lparr>avg_loss = Fin 3, losses = [], printed = []\<rparr> =
     Inr \<lparr>avg_loss = Fin 3, losses = [(Fin 0, 4)], printed = [inf_warning]\<rparr> \<and>
   accumulate_loss [NegInf] 4 \<lparr>avg_loss = Fin 3, losses = [], printed = []\<rparr> =
     Inr \<lparr>avg_loss = Fin 3, losses = [(Fin 0, 4)], printed = [inf_warning]\<rparr> \<and>
   accumulate_loss [Fin 2] 4 \<lparr>avg_loss = Fin 3, losses = [], printed = []\<rparr> =
     Inr \<lparr>avg_loss = Fin 5, losses = [(Fin 2, 4)], printed = []\<rparr>"
  using
    accumulate_loss_spec [of "[PosInf]" 4 "\<lparr>avg_loss = Fin 3, losses = [], printed = []\<rparr>"]
    accumulate_loss_spec [of "[NegInf]" 4 "\<lparr>avg_loss = Fin 3, losses = [], printed = []\<rparr>"]
    accumulate_loss_spec [of "[Fin 2]" 4 "\<lparr>avg_loss = Fin 3, losses = [], printed = []\<rparr>" 2
      "Fin 2" "[]"]
  by (simp add: data_sum_def)

subsection \<open>The end of the epoch loop\<close>

lemmas body_defs = epoch_body_def run_eval_def record_results_def update_best_def
  tensor_index_def target_reached_def initial_state_def

text \<open>
  C6, as stated, fails: the loop does not end whenever the best word error rate is at
  or below the target. In the run below the rate is 10 after the first epoch, below
  the target of 23, and the loop goes on to the second epoch and ends with the epochs
  exhausted, because \<open>params.exit_at_acc\<close> is false.
\<close>

theorem epoch_loop_ignores_target_counterexample:
  "epoch_body plain_params default_args 0 (steady 0) initial_state =
     Inr \<lparr>wer = Some 10, cer = Some 5, best_wer = Some 10,
          loss_results = [0 \<mapsto> 1], wer_results = [0 \<mapsto> 10], cer_results = [0 \<mapsto> 5],
          events = [ValidationSummary 1 10 5, SavedBest 0]\<rparr> \<and>
   (10::real) \<le> acc default_args \<and>
   epoch_loop plain_params default_args steady 0 initial_state =
     Inr (\<lparr>wer = Some 10, cer = Some 5, best_wer = Some 10,
           loss_results = [0 \<mapsto> 1, 1 \<mapsto> 1], wer_results = [0 \<mapsto> 10, 1 \<mapsto> 10],
           cer_results = [0 \<mapsto> 5, 1 \<mapsto> 5],
           events = [ValidationSummary 1 10 5, SavedBest 0, ValidationSummary 2 10 5]\<rparr>,
          Exhausted)"
  by (simp add: body_defs plain_params_def default_args_def steady_def)

text \<open>
  C6, amended: a run of the loop that no exception ends has executed \<open>n\<close> epochs, from
  \<open>start_epoch\<close> on, and stops at the first of them at whose end \<open>params.exit_at_acc\<close>
  is set and \<open>best_wer \<le> args.acc\<close> (the \<open>break\<close>), or, when there is none, with the
  epochs up to \<open>params.epochs\<close> exhausted: at the end of no earlier epoch did the test
  hold, the loop left by \<open>break\<close> has the test true at the end of its last epoch, and
  the loop left by exhaustion has run up to \<open>params.epochs\<close> with the test false at the
  end of its last epoch.
\<close>

theorem epoch_loop_stops:
  "epoch_loop p a inputs e st = Inr (st', ex) \<Longrightarrow>
   \<exists>n. state_after p a inputs e n st = Inr st' \<and>
       (\<forall>m<n. 0 < m \<longrightarrow> (\<exists>s. state_after p a inputs e m st = Inr s \<and> \<not> target_reached p a s)) \<and>
       (case ex of
          Exhausted \<Rightarrow> e + int n = max e (epochs p) \<and> (0 < n \<longrightarrow> \<not> target_reached p a st')
        | Break k \<Rightarrow> 0 < n \<and> k = e + int n - 1 \<and> k < epochs p \<and> target_reached p a st')"
proof (induction p a inputs e st rule: epoch_loop.induct)
  case (1 p a inputs epoch st)
  show ?case
  proof (cases "epoch < epochs p")
    case False
    with "1.prems" have "st' = st" "ex = Exhausted" by auto
    with False show ?thesis
      by (intro exI [of _ 0]) auto
  next
    case True
    with "1.prems" obtain s1 where body: "epoch_body p a epoch (inputs epoch) st = Inr s1"
      by (auto split: sum.splits)
    show ?thesis
    proof (cases "target_reached p a s1")
      case reached: True
      with True body "1.prems" have "st' = s1" "ex = Break epoch" by auto
      with True body reached show ?thesis
        by (intro exI [of _ 1]) auto
    next
      case notyet: False
      with True body "1.prems" have rest: "epoch_loop p a inputs (epoch + 1) s1 = Inr (st', ex)"
        by auto
      from "1.IH" [OF True body notyet rest] obtain n where
        n1: "state_after p a inputs (epoch + 1) n s1 = Inr st'" and
        n2: "\<forall>m<n. 0 < m \<longrightarrow>
               (\<exists>s. state_after p a inputs (epoch + 1) m s1 = Inr s \<and> \<not> target_reached p a s)" and
        n3: "(case ex of
                Exhausted \<Rightarrow> epoch + 1 + int n = max (epoch + 1) (epochs p) \<and>
                  (0 < n \<longrightarrow> \<not> target_reached p a st')
              | Break k \<Rightarrow> 0 < n \<and> k = epoch + 1 + int n - 1 \<and> k < epochs p \<and>
                  target_reached p a st')"
        by blast
      have a1: "state_after p a inputs epoch (Suc n) st = Inr st'"
        using body n1 by simp
      have a2: "\<exists>s. state_after p a inputs epoch m st = Inr s \<and> \<not> target_reached p a s"
        if "m < Suc n" "0 < m" for m
      proof (cases m)
        case 0
        with that show ?thesis by simp
      next
        case (Suc m')
        show ?thesis
        proof (cases "m' = 0")
          case True
          with Suc body notyet show ?thesis by simp
        next
          case False
          with that Suc n2 have
            "\<exists>s. state_after p a inputs (epoch + 1) m' s1 = Inr s \<and> \<not> target_reached p a s"
            by simp
          with Suc body show ?thesis by simp
        qed
      qed
      have a3: "(case ex of
                Exhausted \<Rightarrow> epoch + int (Suc n) = max epoch (epochs p) \<and>
                  (0 < Suc n \<longrightarrow> \<not> target_reached p a st')
              | Break k \<Rightarrow> 0 < Suc n \<and> k = epoch + int (Suc n) - 1 \<and> k < epochs p \<and>
                  target_reached p a st')"
      proof (cases ex)
        case Exhausted
        with n3 have e: "epoch + 1 + int n = max (epoch + 1) (epochs p)"
          and f: "0 < n \<longrightarrow> \<not> target_reached p a st'" by simp_all
        have "\<not> target_reached p a st'"
        proof (cases "n = 0")
          case True
          with n1 notyet show ?thesis by simp
        next
          case False
          with f show ?thesis by simp
        qed
        with Exhausted e True show ?thesis by simp
      next
        case (Break k)
        with n3 show ?thesis by simp
      qed
      from a1 a2 a3 show ?thesis
        by (intro exI [of _ "Suc n"]) blast
    qed
  qed
qed

theorem epoch_loop_stops_witness:
  "epoch_loop target_params default_args improving 0 initial_state =
     Inr (\<lparr>wer = Some 20, cer = Some 5, best_wer = Some 20,
           loss_results = [0 \<mapsto> 1, 1 \<mapsto> 1], wer_results = [0 \<mapsto> 30, 1 \<mapsto> 20],
           cer_results = [0 \<mapsto> 5, 1 \<mapsto> 5],
           events = [ValidationSummary 1 30 5, SavedBest 0, ValidationSummary 2 20 5,
                     SavedBest 1]\<rparr>,
          Break 1) \<and>
   (\<exists>n. state_after target_params default_args improving 0 n initial_state =
          Inr \<lparr>wer = Some 20, cer = Some 5, best_wer = Some 20,
           loss_results = [0 \<mapsto> 1, 1 \<mapsto> 1], wer_results = [0 \<mapsto> 30, 1 \<mapsto> 20],
           cer_results = [0 \<mapsto> 5, 1 \<mapsto> 5],
           events = [ValidationSummary 1 30 5, SavedBest 0, ValidationSummary 2 20 5,
                     SavedBest 1]\<rparr> \<and>
        (1::int) = 0 + int n - 1 \<and> (1::int) < epochs target_params)"
proof -
  have run: "epoch_loop target_params default_args improving 0 initial_state =
     Inr (\<lparr>wer = Some 20, cer = Some 5, best_wer = Some 20,
           loss_results = [0 \<mapsto> 1, 1 \<mapsto> 1], wer_results = [0 \<mapsto> 30, 1 \<mapsto> 20],
           cer_results = [0 \<mapsto> 5, 1 \<mapsto> 5],
           events = [ValidationSummary 1 30 5, SavedBest 0, ValidationSummary 2 20 5,
                     SavedBest 1]\<rparr>,
          Break 1)"
    by (simp add: body_defs target_params_def default_args_def improving_def)
  from epoch_loop_stops [OF run] obtain n where
    "state_after target_params default_args improving 0 n initial_state =
          Inr \<lparr>wer = Some 20, cer = Some 5, best_wer = Some 20,
           loss_results = [0 \<mapsto> 1, 1 \<mapsto> 1], wer_results = [0 \<mapsto> 30, 1 \<mapsto> 20],
           cer_results = [0 \<mapsto> 5, 1 \<mapsto> 5],
           events = [ValidationSummary 1 30 5, SavedBest 0, ValidationSummary 2 20 5,
                     SavedBest 1]\<rparr>"
    "(1::int) = 0 + int n - 1" "(1::int) < epochs target_params"
    by auto
  with run show ?thesis by blast
qed

subsection \<open>A failing evaluation\<close>

text \<open>
  When \<open>eval_model\<close> raises RuntimeError and \<open>wer\<close> and \<open>cer\<close> are bound, the epoch
  goes on, the warning is printed and the values they hold from the last successful
  evaluation are written into the result tensors of this epoch.
\<close>

lemma stale_rates_recorded:
  assumes "eval_model inp = Inl RuntimeError" and "wer st = Some w" and "cer st = Some c"
    and "tensor_index (epochs p) epoch = Inr i"
  shows "\<exists>st'. epoch_body p a epoch inp st = Inr st' \<and>
           wer_results st' i = Some w \<and> cer_results st' i = Some c \<and>
           wer st' = Some w \<and> cer st' = Some c \<and> SkippingEval \<in> set (events st')"
  using assms
  by (auto simp: epoch_body_def run_eval_def record_results_def update_best_def Let_def)

text \<open>
  C8 at the first epoch of a run: \<open>eval_model\<close> raises RuntimeError, the exception is
  caught and the warning printed, but \<open>wer\<close> has never been assigned, so the
  assignment \<open>wer_results[epoch] = wer\<close> raises UnboundLocalError, which nothing
  catches: the loop does not go on to the next epoch.
\<close>

theorem eval_failure_first_epoch:
  "run_eval (failing 0) initial_state = Inr (initial_state\<lparr>events := [SkippingEval]\<rparr>) \<and>
   epoch_body target_params default_args 0 (failing 0) initial_state = Inl UnboundLocalError \<and>
   epoch_loop target_params default_args failing 0 initial_state = Inl UnboundLocalError"
  by (simp add: body_defs target_params_def default_args_def failing_def)

end
